theory Spec2Isabelle
  imports Main
begin

section \<open>Go values shared by the controller\<close>

text \<open>
  A Go \<open>error\<close> value. \<open>ErrorsNew\<close> is \<open>errors.New(msg)\<close>, \<open>ErrorsWrap\<close> is
  \<open>errors.Wrap(err, msg)\<close> of github.com/pkg/errors on a non-nil \<open>err\<close>, and
  \<open>LibError\<close> is an error handed back by a library call (os/exec, encoding/json, the
  Kubernetes client, the credential extractor), known by its message. A nil error is
  \<open>None\<close> of \<open>go_error option\<close>.
\<close>

datatype go_error =
    ErrorsNew string
  | ErrorsWrap go_error string
  | LibError string

text \<open>The \<open>Error()\<close> method: a wrapped error prints its message, a colon, and its cause.\<close>

fun Error :: "go_error \<Rightarrow> string" where
  "Error (ErrorsNew msg) = msg"
| "Error (ErrorsWrap err msg) = msg @ '': '' @ Error err"
| "Error (LibError msg) = msg"

definition errNotMyType :: string where
  "errNotMyType = ''managed resource is not a TestCase custom resource''"

definition errTrackPCUsage :: string where
  "errTrackPCUsage = ''cannot track ProviderConfig usage''"

definition errGetPC :: string where
  "errGetPC = ''cannot get ProviderConfig''"

definition errGetCreds :: string where
  "errGetCreds = ''cannot get credentials''"

definition errNewClient :: string where
  "errNewClient = ''cannot create new Service''"

text \<open>
  A Go call either returns or panics. The only panic the controller can raise is the nil
  pointer dereference of \<open>cr.GetProviderConfigReference().Name\<close> in \<open>Connect\<close>.
\<close>

datatype 'a outcome = Returns 'a | Panics string

definition nilDereference :: string where
  "nilDereference = ''runtime error: invalid memory address or nil pointer dereference''"

section \<open>The records of the forge list response\<close>

record forgeApiResponseDataAttributes =
  Name :: string
  Scope :: string
  Org :: string

record forgeApiResponseData =
  Id :: string
  Attributes :: forgeApiResponseDataAttributes

record forgeApiResponse =
  ForgeApiResponseData :: "forgeApiResponseData list"

record forge =
  jwtToken :: string

section \<open>The managed resource and the Crossplane types around it\<close>

text \<open>
  \<open>TestCase\<close> as the controller reads it: \<open>Spec.ForProvider.Org\<close>,
  \<open>Spec.ForProvider.Name\<close> and the provider configuration reference of the embedded
  \<open>xpv1.ResourceSpec\<close>, a pointer that may be nil. (The \<open>types.go\<close> at hand declares
  \<open>TestCaseParameters\<close> with a single \<open>ConfigurableField\<close>; the controller is written
  against the two fields below.) Metadata and status are read by no operation except
  through the \<open>%+v\<close> rendering, which is a parameter of the environment.
\<close>

record TestCaseParameters =
  Org :: string
  Name :: string

record Reference =
  Name :: string

record ResourceSpec =
  ProviderConfigReference :: "Reference option"

record TestCaseSpec = ResourceSpec +
  ForProvider :: TestCaseParameters

record TestCase =
  Spec :: TestCaseSpec

text \<open>
  \<open>resource.Managed\<close> is an interface; the type assertion \<open>mg.(*v1alpha1.TestCase)\<close>
  succeeds on a \<open>TestCase\<close> and fails on every other kind, named here by its kind.
\<close>

datatype managed =
    IsTestCase TestCase
  | OtherKind string

text \<open>The credentials block of a \<open>ProviderConfig\<close> (crossplane-runtime's types).\<close>

record CommonCredentialSelectors =
  Fs :: "string option"
  Env :: "string option"
  SecretRef :: "(string \<times> string \<times> string) option"

record ProviderCredentials =
  Source :: string
  CommonCredentialSelectors :: CommonCredentialSelectors

record ProviderConfigSpec =
  Credentials :: ProviderCredentials

record ProviderConfig =
  Spec :: ProviderConfigSpec

text \<open>
  The results handed to the managed reconciler. \<open>ConnectionDetails\<close> is a Go map:
  \<open>None\<close> is the nil map of a zero struct, \<open>Some Map.empty\<close> is the literal
  \<open>managed.ConnectionDetails{}\<close>. Only the fields the controller sets are kept; the
  others hold their zero value in every return.
\<close>

record ExternalObservation =
  ResourceExists :: bool
  ResourceUpToDate :: bool
  ConnectionDetails :: "(string \<rightharpoonup> string) option"

record ExternalCreation =
  ConnectionDetails :: "(string \<rightharpoonup> string) option"

record ExternalUpdate =
  ConnectionDetails :: "(string \<rightharpoonup> string) option"

definition zeroExternalObservation :: ExternalObservation where
  "zeroExternalObservation =
     \<lparr>ResourceExists = False, ResourceUpToDate = False,
      ExternalObservation.ConnectionDetails = None\<rparr>"

definition zeroExternalCreation :: ExternalCreation where
  "zeroExternalCreation = \<lparr>ExternalCreation.ConnectionDetails = None\<rparr>"

definition zeroExternalUpdate :: ExternalUpdate where
  "zeroExternalUpdate = \<lparr>ExternalUpdate.ConnectionDetails = None\<rparr>"

section \<open>Effects\<close>

text \<open>
  Everything an operation does outside its return value, in the order it happens:
  a line written to standard output, an external command run to completion
  (\<open>exec.Command(argv).Output()\<close>), a usage-tracking call, a read of a
  \<open>ProviderConfig\<close> from the configuration store, and a credential extraction.
  Each operation takes the trace so far and returns it extended.
\<close>

datatype event =
    Print string
  | Exec "string list"
  | Track managed
  | Get string
  | ExtractCredentials ProviderCredentials

type_synonym trace = "event list"

text \<open>
  What lies outside the repository and is called by it: the result of running a command
  (standard output, or the error of \<open>Output()\<close>), \<open>json.Unmarshal\<close> into a zero
  \<open>forgeApiResponse\<close>, \<open>resource.CommonCredentialExtractor\<close>, and the \<open>%+v\<close>
  rendering of a \<open>*TestCase\<close> by \<open>fmt\<close>. No operation runs the same command
  twice, so a result per argument vector covers every behaviour of the commands.
\<close>

record world =
  Output :: "string list \<Rightarrow> go_error + string"
  Unmarshal :: "string \<Rightarrow> go_error + forgeApiResponse"
  CommonCredentialExtractor :: "ProviderCredentials \<Rightarrow> go_error + string"
  Sprint_plus_v :: "TestCase \<Rightarrow> string"

definition Println :: "string \<Rightarrow> event" where
  "Println s = Print (s @ ''\<newline>'')"

section \<open>The forge client\<close>

definition NewForge :: "string \<Rightarrow> forge \<times> go_error option" where
  "NewForge jwt = (\<lparr>jwtToken = jwt\<rparr>, None)"

definition ping :: "world \<Rightarrow> forge \<Rightarrow> trace \<Rightarrow> go_error option \<times> trace" where
  "ping w f tr =
     (let cmd = [''forge'', ''ping''];
          tr = tr @ [Exec cmd]
      in case Output w cmd of
           Inl err \<Rightarrow> (Some err, tr @ [Println (Error err)])
         | Inr stdout \<Rightarrow> (None, tr @ [Println stdout]))"

text \<open>The \<open>range\<close> loop of \<open>exists\<close>: the first record with the name ends it.\<close>

fun exists_range :: "forgeApiResponseData list \<Rightarrow> string \<Rightarrow> bool" where
  "exists_range [] name = False"
| "exists_range (element # rest) name =
     (if forgeApiResponseDataAttributes.Name (Attributes element) = name then True
      else exists_range rest name)"

definition exists ::
  "world \<Rightarrow> forge \<Rightarrow> string \<Rightarrow> string \<Rightarrow> trace \<Rightarrow> (bool \<times> go_error option) \<times> trace" where
  "exists w f org name tr =
     (let cmd = [''forge'', ''--output'', ''json'', ''test-case'', ''list'', org];
          tr = tr @ [Exec cmd]
      in case Output w cmd of
           Inl err \<Rightarrow> ((False, Some err), tr @ [Println (Error err)])
         | Inr stdout \<Rightarrow>
             (case Unmarshal w stdout of
                Inl err \<Rightarrow> ((False, Some err), tr @ [Println (Error err)])
              | Inr r \<Rightarrow> ((exists_range (ForgeApiResponseData r) name, None), tr)))"

definition create ::
  "world \<Rightarrow> forge \<Rightarrow> string \<Rightarrow> string \<Rightarrow> trace \<Rightarrow> go_error option \<times> trace" where
  "create w f org name tr =
     (let cmd = [''forge'', ''test-case'', ''create'', org @ ''/'' @ name,
                 ''examples/sample/loadtest.mjs''];
          tr = tr @ [Exec cmd]
      in case Output w cmd of
           Inl err \<Rightarrow> (Some err, tr @ [Println (Error err)])
         | Inr stdout \<Rightarrow> (None, tr @ [Println (''create: '' @ stdout)]))"

section \<open>The connector\<close>

text \<open>
  The connector holds the two clients \<open>Setup\<close> injects: \<open>kube\<close>, whose \<open>Get\<close> reads
  the \<open>ProviderConfig\<close> of a given name, and \<open>usage\<close>, whose \<open>Track\<close> records that
  the managed resource uses its \<open>ProviderConfig\<close>.
\<close>

record connector =
  kube :: "string \<Rightarrow> go_error + ProviderConfig"
  usage :: "managed \<Rightarrow> go_error option"

record external =
  forge :: forge

definition Connect ::
  "world \<Rightarrow> connector \<Rightarrow> managed \<Rightarrow> trace \<Rightarrow>
     (external option \<times> go_error option) outcome \<times> trace" where
  "Connect w c mg tr =
     (let tr = tr @ [Print ''MDL Connect\<newline>'']
      in case mg of
           OtherKind k \<Rightarrow> (Returns (None, Some (ErrorsNew errNotMyType)), tr)
         | IsTestCase cr \<Rightarrow>
             (let tr = tr @ [Track mg]
              in case usage c mg of
                   Some err \<Rightarrow> (Returns (None, Some (ErrorsWrap err errTrackPCUsage)), tr)
                 | None \<Rightarrow>
                     (case ProviderConfigReference (TestCase.Spec cr) of
                        None \<Rightarrow> (Panics nilDereference, tr)
                      | Some ref \<Rightarrow>
                          (let tr = tr @ [Get (Reference.Name ref)]
                           in case kube c (Reference.Name ref) of
                                Inl err \<Rightarrow> (Returns (None, Some (ErrorsWrap err errGetPC)), tr)
                              | Inr pc \<Rightarrow>
                                  (let cd = Credentials (ProviderConfig.Spec pc);
                                       tr = tr @ [ExtractCredentials cd]
                                   in case CommonCredentialExtractor w cd of
                                        Inl err \<Rightarrow>
                                          (Returns (None, Some (ErrorsWrap err errGetCreds)), tr)
                                      | Inr data \<Rightarrow>
                                          (let tr = tr @ [Print (''MDL pc.Spec.Credentials.data: ''
                                                                 @ data @ ''\<newline>'')]
                                           in case NewForge data of
                                                (forge', Some err) \<Rightarrow>
                                                  (Returns (None, Some (ErrorsWrap err errNewClient)), tr)
                                              | (forge', None) \<Rightarrow>
                                                  (let (pinged, tr) = ping w forge' tr
                                                   in (Returns (Some \<lparr>forge = forge'\<rparr>, None),
                                                       tr))))))))"

section \<open>The external client\<close>

definition Observe ::
  "world \<Rightarrow> external \<Rightarrow> managed \<Rightarrow> trace \<Rightarrow>
     (ExternalObservation \<times> go_error option) \<times> trace" where
  "Observe w c mg tr =
     (case mg of
        OtherKind k \<Rightarrow> ((zeroExternalObservation, Some (ErrorsNew errNotMyType)), tr)
      | IsTestCase testCase \<Rightarrow>
          (let ((exists', discarded), tr) =
                 exists w (forge c)
                   (TestCaseParameters.Org (ForProvider (TestCase.Spec testCase)))
                   (TestCaseParameters.Name (ForProvider (TestCase.Spec testCase))) tr;
               tr = tr @ [Print (''MDL Observing: '' @ Sprint_plus_v w testCase @ ''\<newline>'')];
               tr = tr @ [Print (''MDL Observing TestCase Exists: ''
                                 @ (if exists' then ''true'' else ''false'') @ ''\<newline>'')]
           in ((\<lparr>ResourceExists = exists', ResourceUpToDate = True,
                 ExternalObservation.ConnectionDetails = Some Map.empty\<rparr>, None), tr)))"

definition Create ::
  "world \<Rightarrow> external \<Rightarrow> managed \<Rightarrow> trace \<Rightarrow>
     (ExternalCreation \<times> go_error option) \<times> trace" where
  "Create w c mg tr =
     (case mg of
        OtherKind k \<Rightarrow> ((zeroExternalCreation, Some (ErrorsNew errNotMyType)), tr)
      | IsTestCase cr \<Rightarrow>
          (let tr = tr @ [Print (''MDL Creating: '' @ Sprint_plus_v w cr @ ''\<newline>'')];
               (err, tr) =
                 create w (forge c)
                   (TestCaseParameters.Org (ForProvider (TestCase.Spec cr)))
                   (TestCaseParameters.Name (ForProvider (TestCase.Spec cr))) tr
           in case err of
                Some e \<Rightarrow> ((zeroExternalCreation, Some e), tr)
              | None \<Rightarrow>
                  ((\<lparr>ExternalCreation.ConnectionDetails = Some Map.empty\<rparr>, None), tr)))"

definition Update ::
  "world \<Rightarrow> external \<Rightarrow> managed \<Rightarrow> trace \<Rightarrow>
     (ExternalUpdate \<times> go_error option) \<times> trace" where
  "Update w c mg tr =
     (case mg of
        OtherKind k \<Rightarrow> ((zeroExternalUpdate, Some (ErrorsNew errNotMyType)), tr)
      | IsTestCase cr \<Rightarrow>
          (let tr = tr @ [Print (''MDL Updating: '' @ Sprint_plus_v w cr @ ''\<newline>'')]
           in ((\<lparr>ExternalUpdate.ConnectionDetails = Some Map.empty\<rparr>, None), tr)))"

definition Delete ::
  "world \<Rightarrow> external \<Rightarrow> managed \<Rightarrow> trace \<Rightarrow> go_error option \<times> trace" where
  "Delete w c mg tr =
     (case mg of
        OtherKind k \<Rightarrow> (Some (ErrorsNew errNotMyType), tr)
      | IsTestCase cr \<Rightarrow>
          (let tr = tr @ [Print (''MDL Deleting: '' @ Sprint_plus_v w cr)]
           in (None, tr)))"

section \<open>Reading a trace\<close>

text \<open>The external commands run, the configuration-store reads and the other calls of a trace.\<close>

fun commands :: "trace \<Rightarrow> string list list" where
  "commands [] = []"
| "commands (Exec argv # tr) = argv # commands tr"
| "commands (e # tr) = commands tr"

fun isPrint :: "event \<Rightarrow> bool" where
  "isPrint (Print s) = True"
| "isPrint e = False"

text \<open>The events of a trace that reach beyond standard output.\<close>

definition calls :: "trace \<Rightarrow> trace" where
  "calls tr = filter (\<lambda>e. \<not> isPrint e) tr"

section \<open>Scenarios\<close>

text \<open>
  Concrete inputs at which the theorems below are evaluated: the test case
  \<open>acme/load-1\<close> referring to the provider configuration \<open>default\<close>, the same
  test case referring to a provider configuration \<open>missing\<close> that the store lacks, and an
  environment given by the results of the three forge commands and of the credential
  extraction. The decoder answers on the payloads of the scenarios as
  \<open>encoding/json\<close> does and rejects every other input.
\<close>

definition acmeLoad1 :: TestCase where
  "acmeLoad1 =
     \<lparr>TestCase.Spec =
        \<lparr>ProviderConfigReference = Some \<lparr>Reference.Name = ''default''\<rparr>,
         ForProvider = \<lparr>TestCaseParameters.Org = ''acme'',
                        TestCaseParameters.Name = ''load-1''\<rparr>\<rparr>\<rparr>"

definition missingConfig :: TestCase where
  "missingConfig =
     \<lparr>TestCase.Spec =
        \<lparr>ProviderConfigReference = Some \<lparr>Reference.Name = ''missing''\<rparr>,
         ForProvider = \<lparr>TestCaseParameters.Org = ''acme'',
                        TestCaseParameters.Name = ''load-1''\<rparr>\<rparr>\<rparr>"

definition emptyList :: string where
  "emptyList = ''{\"data\":[]}''"

definition load1Listed :: string where
  "load1Listed = ''{\"data\":[{\"id\":\"1\",\"attributes\":{\"name\":\"load-1\",\"scope\":\"acme\"}}]}''"

definition load2Listed :: string where
  "load2Listed = ''{\"data\":[{\"id\":\"7\",\"attributes\":{\"name\":\"load-2\",\"scope\":\"acme\"}}]}''"

definition stubUnmarshal :: "string \<Rightarrow> go_error + forgeApiResponse" where
  "stubUnmarshal s =
     (if s = emptyList then Inr \<lparr>ForgeApiResponseData = []\<rparr>
      else if s = load1Listed then
        Inr \<lparr>ForgeApiResponseData =
               [\<lparr>Id = ''1'',
                 Attributes = \<lparr>forgeApiResponseDataAttributes.Name = ''load-1'',
                               Scope = ''acme'',
                               forgeApiResponseDataAttributes.Org = []\<rparr>\<rparr>]\<rparr>
      else if s = load2Listed then
        Inr \<lparr>ForgeApiResponseData =
               [\<lparr>Id = ''7'',
                 Attributes = \<lparr>forgeApiResponseDataAttributes.Name = ''load-2'',
                               Scope = ''acme'',
                               forgeApiResponseDataAttributes.Org = []\<rparr>\<rparr>]\<rparr>
      else Inl (LibError ''invalid character in JSON input''))"

definition stubWorld ::
  "go_error + string \<Rightarrow> go_error + string \<Rightarrow> go_error + string \<Rightarrow> go_error + string \<Rightarrow> world" where
  "stubWorld pinged listed created extracted =
     \<lparr>Output = (\<lambda>argv.
         if argv = [''forge'', ''ping''] then pinged
         else if argv = [''forge'', ''--output'', ''json'', ''test-case'', ''list'', ''acme'']
           then listed
         else if argv = [''forge'', ''test-case'', ''create'', ''acme/load-1'',
                         ''examples/sample/loadtest.mjs'']
           then created
         else Inl (LibError ''exec: unexpected command'')),
      Unmarshal = stubUnmarshal,
      CommonCredentialExtractor = (\<lambda>cd. extracted),
      Sprint_plus_v = (\<lambda>testCase. ''&{acme/load-1}'')\<rparr>"

definition secretCredentials :: ProviderCredentials where
  "secretCredentials =
     \<lparr>Source = ''Secret'',
      CommonCredentialSelectors =
        \<lparr>Fs = None, Env = None,
         SecretRef = Some (''crossplane-system'', ''stormforge-secret'', ''credentials'')\<rparr>\<rparr>"

definition stubConnector :: "go_error option \<Rightarrow> connector" where
  "stubConnector tracked =
     \<lparr>kube = (\<lambda>name.
         if name = ''default''
         then Inr \<lparr>ProviderConfig.Spec = \<lparr>Credentials = secretCredentials\<rparr>\<rparr>
         else Inl (LibError ''ProviderConfig not found'')),
      usage = (\<lambda>mg. tracked)\<rparr>"

definition stubExternal :: external where
  "stubExternal = \<lparr>forge = \<lparr>jwtToken = ''jwt''\<rparr>\<rparr>"

section \<open>Facts about the model\<close>

lemma exists_range_iff:
  "exists_range xs name =
     (\<exists>element \<in> set xs. forgeApiResponseDataAttributes.Name (Attributes element) = name)"
  by (induction xs) auto

lemma commands_append: "commands (xs @ ys) = commands xs @ commands ys"
  by (induction xs rule: commands.induct) simp_all

lemma stubWorld_ping:
  "Output (stubWorld p l c e) [''forge'', ''ping''] = p"
  by (simp add: stubWorld_def)

lemma stubWorld_list:
  "Output (stubWorld p l c e) [''forge'', ''--output'', ''json'', ''test-case'', ''list'', ''acme''] = l"
  by (simp add: stubWorld_def)

lemma stubWorld_create:
  "Output (stubWorld p l c e)
     [''forge'', ''test-case'', ''create'', ''acme/load-1'', ''examples/sample/loadtest.mjs''] = c"
  by (simp add: stubWorld_def)

lemma stubWorld_Unmarshal: "Unmarshal (stubWorld p l c e) = stubUnmarshal"
  by (simp add: stubWorld_def)

lemma stubWorld_extract: "CommonCredentialExtractor (stubWorld p l c e) cd = e"
  by (simp add: stubWorld_def)

lemma stubWorld_render: "Sprint_plus_v (stubWorld p l c e) testCase = ''&{acme/load-1}''"
  by (simp add: stubWorld_def)

lemma stubUnmarshal_empty:
  "stubUnmarshal ''{\"data\":[]}'' = Inr \<lparr>ForgeApiResponseData = []\<rparr>"
  by (simp add: stubUnmarshal_def emptyList_def)

lemma stubUnmarshal_load1:
  "stubUnmarshal load1Listed =
     Inr \<lparr>ForgeApiResponseData =
            [\<lparr>Id = ''1'',
              Attributes = \<lparr>forgeApiResponseDataAttributes.Name = ''load-1'',
                            Scope = ''acme'',
                            forgeApiResponseDataAttributes.Org = []\<rparr>\<rparr>]\<rparr>"
  by (simp add: stubUnmarshal_def load1Listed_def emptyList_def)

lemma stubUnmarshal_load2:
  "stubUnmarshal load2Listed =
     Inr \<lparr>ForgeApiResponseData =
            [\<lparr>Id = ''7'',
              Attributes = \<lparr>forgeApiResponseDataAttributes.Name = ''load-2'',
                            Scope = ''acme'',
                            forgeApiResponseDataAttributes.Org = []\<rparr>\<rparr>]\<rparr>"
  by (simp add: stubUnmarshal_def load1Listed_def load2Listed_def emptyList_def)

lemma stubUnmarshal_malformed:
  "stubUnmarshal ''not json'' = Inl (LibError ''invalid character in JSON input'')"
  by (simp add: stubUnmarshal_def load1Listed_def load2Listed_def emptyList_def)

lemmas stub_simps =
  stubWorld_ping stubWorld_list stubWorld_create stubWorld_Unmarshal stubWorld_extract
  stubWorld_render stubUnmarshal_empty stubUnmarshal_load1 stubUnmarshal_load2
  stubUnmarshal_malformed

lemma acmeLoad1_fields:
  "TestCaseParameters.Org (ForProvider (TestCase.Spec acmeLoad1)) = ''acme''"
  "TestCaseParameters.Name (ForProvider (TestCase.Spec acmeLoad1)) = ''load-1''"
  "ProviderConfigReference (TestCase.Spec acmeLoad1) = Some \<lparr>Reference.Name = ''default''\<rparr>"
  by (simp_all add: acmeLoad1_def)

lemma exists_command_failed:
  assumes "Output w [''forge'', ''--output'', ''json'', ''test-case'', ''list'', org] = Inl err"
  shows "exists w f org name tr =
           ((False, Some err),
            tr @ [Exec [''forge'', ''--output'', ''json'', ''test-case'', ''list'', org],
                  Println (Error err)])"
  using assms by (simp add: exists_def)

lemma exists_unmarshal_failed:
  assumes "Output w [''forge'', ''--output'', ''json'', ''test-case'', ''list'', org] = Inr stdout"
    and "Unmarshal w stdout = Inl err"
  shows "exists w f org name tr =
           ((False, Some err),
            tr @ [Exec [''forge'', ''--output'', ''json'', ''test-case'', ''list'', org],
                  Println (Error err)])"
  using assms by (simp add: exists_def)

lemma exists_parsed:
  assumes "Output w [''forge'', ''--output'', ''json'', ''test-case'', ''list'', org] = Inr stdout"
    and "Unmarshal w stdout = Inr r"
  shows "exists w f org name tr =
           ((exists_range (ForgeApiResponseData r) name, None),
            tr @ [Exec [''forge'', ''--output'', ''json'', ''test-case'', ''list'', org]])"
  using assms by (simp add: exists_def)

section \<open>The existence query\<close>

text \<open>
  Claim C3. For every organization, name and list response that the command delivers and
  the decoder accepts, \<open>exists\<close> returns true exactly when some record of the parsed
  list has \<open>attributes.name\<close> equal to the name, with a nil error; the \<open>id\<close> and
  \<open>scope\<close> of the records take no part in the result.
\<close>

theorem exists_true_iff_name_listed:
  assumes "Output w [''forge'', ''--output'', ''json'', ''test-case'', ''list'', org] = Inr stdout"
    and "Unmarshal w stdout = Inr r"
  shows "exists w f org name tr =
           (((\<exists>element \<in> set (ForgeApiResponseData r).
                 forgeApiResponseDataAttributes.Name (Attributes element) = name), None),
            tr @ [Exec [''forge'', ''--output'', ''json'', ''test-case'', ''list'', org]])"
  using assms by (simp add: exists_parsed exists_range_iff)

theorem exists_true_iff_name_listed_witness:
  "Output (stubWorld (Inr ''pong'') (Inr load1Listed) (Inr []) (Inr ''jwt''))
       [''forge'', ''--output'', ''json'', ''test-case'', ''list'', ''acme''] = Inr load1Listed
   \<and> Unmarshal (stubWorld (Inr ''pong'') (Inr load1Listed) (Inr []) (Inr ''jwt'')) load1Listed
       = Inr \<lparr>ForgeApiResponseData =
               [\<lparr>Id = ''1'',
                 Attributes = \<lparr>forgeApiResponseDataAttributes.Name = ''load-1'',
                               Scope = ''acme'',
                               forgeApiResponseDataAttributes.Org = []\<rparr>\<rparr>]\<rparr>
   \<and> exists (stubWorld (Inr ''pong'') (Inr load1Listed) (Inr []) (Inr ''jwt''))
         \<lparr>jwtToken = ''jwt''\<rparr> ''acme'' ''load-1'' []
       = ((True, None),
          [Exec [''forge'', ''--output'', ''json'', ''test-case'', ''list'', ''acme'']])"
  using exists_true_iff_name_listed
          [of "stubWorld (Inr ''pong'') (Inr load1Listed) (Inr []) (Inr ''jwt'')" "''acme''"
              load1Listed _ "\<lparr>jwtToken = ''jwt''\<rparr>" "''load-1''" "[]"]
  by (simp add: stub_simps)

text \<open>
  Claim C2, as stated: whenever \<open>exists\<close> returns false with a nil error, the parsed
  list was non-empty and well-formed. It fails on the empty list of the spec's own
  scenario A: the command delivers \<open>{"data":[]}\<close>, the decoder accepts it as a list of
  no records, and \<open>exists\<close> returns false with a nil error.
\<close>

theorem exists_empty_list_is_silent_false:
  "Output (stubWorld (Inr ''pong'') (Inr ''{\"data\":[]}'') (Inr []) (Inr ''jwt''))
       [''forge'', ''--output'', ''json'', ''test-case'', ''list'', ''acme'']
     = Inr ''{\"data\":[]}''
   \<and> Unmarshal (stubWorld (Inr ''pong'') (Inr ''{\"data\":[]}'') (Inr []) (Inr ''jwt''))
         ''{\"data\":[]}''
     = Inr \<lparr>ForgeApiResponseData = []\<rparr>
   \<and> fst (exists (stubWorld (Inr ''pong'') (Inr ''{\"data\":[]}'') (Inr []) (Inr ''jwt''))
              \<lparr>jwtToken = ''jwt''\<rparr> ''acme'' ''load-1'' [])
     = (False, None)"
  by (simp add: exists_def stub_simps)

text \<open>
  Claim C2, amended. A list command that fails and a list response that the decoder
  rejects both give false together with that error, never false with a nil error; and
  whenever \<open>exists\<close> returns false with a nil error, the command succeeded, its output
  was decoded, and no record of the decoded list (which may be empty) bears the name.
\<close>

theorem exists_false_nil_means_name_absent:
  "(Output w [''forge'', ''--output'', ''json'', ''test-case'', ''list'', org] = Inl err
      \<longrightarrow> fst (exists w f org name tr) = (False, Some err))
   \<and> (Output w [''forge'', ''--output'', ''json'', ''test-case'', ''list'', org] = Inr stdout
        \<and> Unmarshal w stdout = Inl err
      \<longrightarrow> fst (exists w f org name tr) = (False, Some err))
   \<and> (fst (exists w f org name tr) = (False, None)
      \<longrightarrow> (\<exists>stdout r.
             Output w [''forge'', ''--output'', ''json'', ''test-case'', ''list'', org] = Inr stdout
             \<and> Unmarshal w stdout = Inr r
             \<and> (\<forall>element \<in> set (ForgeApiResponseData r).
                   forgeApiResponseDataAttributes.Name (Attributes element) \<noteq> name)))"
proof (intro conjI impI)
  assume "Output w [''forge'', ''--output'', ''json'', ''test-case'', ''list'', org] = Inl err"
  then show "fst (exists w f org name tr) = (False, Some err)"
    by (simp add: exists_command_failed)
next
  assume "Output w [''forge'', ''--output'', ''json'', ''test-case'', ''list'', org] = Inr stdout
          \<and> Unmarshal w stdout = Inl err"
  then show "fst (exists w f org name tr) = (False, Some err)"
    by (simp add: exists_unmarshal_failed)
next
  assume silent: "fst (exists w f org name tr) = (False, None)"
  show "\<exists>stdout r.
          Output w [''forge'', ''--output'', ''json'', ''test-case'', ''list'', org] = Inr stdout
          \<and> Unmarshal w stdout = Inr r
          \<and> (\<forall>element \<in> set (ForgeApiResponseData r).
                forgeApiResponseDataAttributes.Name (Attributes element) \<noteq> name)"
  proof (cases "Output w [''forge'', ''--output'', ''json'', ''test-case'', ''list'', org]")
    case (Inl e)
    with silent show ?thesis by (simp add: exists_command_failed)
  next
    case (Inr out)
    show ?thesis
    proof (cases "Unmarshal w out")
      case (Inl e)
      with Inr silent show ?thesis by (simp add: exists_unmarshal_failed)
    next
      case parsed: (Inr r)
      with Inr silent have "\<not> exists_range (ForgeApiResponseData r) name"
        by (simp add: exists_parsed)
      with Inr parsed show ?thesis by (simp add: exists_range_iff)
    qed
  qed
qed

theorem exists_false_nil_means_name_absent_witness:
  "fst (exists (stubWorld (Inr ''pong'') (Inl (LibError ''exit status 1'')) (Inr []) (Inr ''jwt''))
          \<lparr>jwtToken = ''jwt''\<rparr> ''acme'' ''load-1'' [])
     = (False, Some (LibError ''exit status 1''))
   \<and> fst (exists (stubWorld (Inr ''pong'') (Inr ''not json'') (Inr []) (Inr ''jwt''))
          \<lparr>jwtToken = ''jwt''\<rparr> ''acme'' ''load-1'' [])
     = (False, Some (LibError ''invalid character in JSON input''))
   \<and> fst (exists (stubWorld (Inr ''pong'') (Inr load2Listed) (Inr []) (Inr ''jwt''))
          \<lparr>jwtToken = ''jwt''\<rparr> ''acme'' ''load-1'' [])
     = (False, None)
   \<and> (\<exists>stdout r.
         Output (stubWorld (Inr ''pong'') (Inr load2Listed) (Inr []) (Inr ''jwt''))
           [''forge'', ''--output'', ''json'', ''test-case'', ''list'', ''acme''] = Inr stdout
         \<and> Unmarshal (stubWorld (Inr ''pong'') (Inr load2Listed) (Inr []) (Inr ''jwt'')) stdout
             = Inr r
         \<and> (\<forall>element \<in> set (ForgeApiResponseData r).
               forgeApiResponseDataAttributes.Name (Attributes element) \<noteq> ''load-1''))"
proof -
  have silent:
    "fst (exists (stubWorld (Inr ''pong'') (Inr load2Listed) (Inr []) (Inr ''jwt''))
            \<lparr>jwtToken = ''jwt''\<rparr> ''acme'' ''load-1'' []) = (False, None)"
    by (simp add: exists_def stub_simps)
  show ?thesis
    using exists_false_nil_means_name_absent
            [of "stubWorld (Inr ''pong'') (Inl (LibError ''exit status 1'')) (Inr []) (Inr ''jwt'')"
                "''acme''" "LibError ''exit status 1''" "\<lparr>jwtToken = ''jwt''\<rparr>" "''load-1''" "[]"]
          exists_false_nil_means_name_absent
            [of "stubWorld (Inr ''pong'') (Inr ''not json'') (Inr []) (Inr ''jwt'')"
                "''acme''" "LibError ''invalid character in JSON input''"
                "\<lparr>jwtToken = ''jwt''\<rparr>" "''load-1''" "[]" "''not json''"]
          exists_false_nil_means_name_absent
            [of "stubWorld (Inr ''pong'') (Inr load2Listed) (Inr []) (Inr ''jwt'')"
                "''acme''" _ "\<lparr>jwtToken = ''jwt''\<rparr>" "''load-1''" "[]"]
          silent
    by (simp add: stub_simps)
qed

section \<open>Observe\<close>

text \<open>
  Claim C1 says that a failing list call makes \<open>Observe\<close> return the query error. At
  the test case \<open>acme/load-1\<close>, with the list command exiting with status 1,
  \<open>exists\<close> returns false with that error and prints it, and \<open>Observe\<close> returns a nil
  error with \<open>ResourceExists = false\<close>: the answer that tells the managed reconciler
  to call \<open>Create\<close>.
\<close>

theorem Observe_drops_failed_query:
  "fst (exists (stubWorld (Inr ''pong'') (Inl (LibError ''exit status 1'')) (Inr []) (Inr ''jwt''))
          (forge stubExternal) ''acme'' ''load-1'' [])
     = (False, Some (LibError ''exit status 1''))
   \<and> Observe (stubWorld (Inr ''pong'') (Inl (LibError ''exit status 1'')) (Inr []) (Inr ''jwt''))
       stubExternal (IsTestCase acmeLoad1) []
     = ((\<lparr>ResourceExists = False, ResourceUpToDate = True,
          ExternalObservation.ConnectionDetails = Some Map.empty\<rparr>, None),
        [Exec [''forge'', ''--output'', ''json'', ''test-case'', ''list'', ''acme''],
         Print ''exit status 1\<newline>'',
         Print ''MDL Observing: &{acme/load-1}\<newline>'',
         Print ''MDL Observing TestCase Exists: false\<newline>''])"
  by (simp add: Observe_def exists_def acmeLoad1_fields stub_simps Println_def)

lemma Observe_TestCase:
  "Observe w c (IsTestCase testCase) tr =
     ((\<lparr>ResourceExists =
           fst (fst (exists w (forge c)
                       (TestCaseParameters.Org (ForProvider (TestCase.Spec testCase)))
                       (TestCaseParameters.Name (ForProvider (TestCase.Spec testCase))) tr)),
         ResourceUpToDate = True,
         ExternalObservation.ConnectionDetails = Some Map.empty\<rparr>, None),
      snd (exists w (forge c)
             (TestCaseParameters.Org (ForProvider (TestCase.Spec testCase)))
             (TestCaseParameters.Name (ForProvider (TestCase.Spec testCase))) tr)
        @ [Print (''MDL Observing: '' @ Sprint_plus_v w testCase @ ''\<newline>''),
           Print (''MDL Observing TestCase Exists: ''
                  @ (if fst (fst (exists w (forge c)
                       (TestCaseParameters.Org (ForProvider (TestCase.Spec testCase)))
                       (TestCaseParameters.Name (ForProvider (TestCase.Spec testCase))) tr))
                     then ''true'' else ''false'') @ ''\<newline>'')])"
  by (simp add: Observe_def Let_def split: prod.splits)

lemma exists_error_false:
  "snd (fst (exists w f org name tr)) \<noteq> None \<Longrightarrow> \<not> fst (fst (exists w f org name tr))"
  by (auto simp add: exists_def Let_def split: sum.splits)

text \<open>
  Claim C10. On a \<open>TestCase\<close>, \<open>Observe\<close> never returns an error: the error of the
  existence query is discarded, the returned error is nil, \<open>ResourceExists\<close> is the
  boolean \<open>exists\<close> returned (false whenever the query failed), \<open>ResourceUpToDate\<close> is
  true and \<open>ConnectionDetails\<close> is the empty map.
\<close>

theorem Observe_never_returns_error:
  "fst (Observe w c (IsTestCase testCase) tr) =
     (\<lparr>ResourceExists =
          fst (fst (exists w (forge c)
                      (TestCaseParameters.Org (ForProvider (TestCase.Spec testCase)))
                      (TestCaseParameters.Name (ForProvider (TestCase.Spec testCase))) tr)),
        ResourceUpToDate = True,
        ExternalObservation.ConnectionDetails = Some Map.empty\<rparr>, None)
   \<and> (snd (fst (exists w (forge c)
                  (TestCaseParameters.Org (ForProvider (TestCase.Spec testCase)))
                  (TestCaseParameters.Name (ForProvider (TestCase.Spec testCase))) tr)) \<noteq> None
      \<longrightarrow> \<not> ResourceExists (fst (fst (Observe w c (IsTestCase testCase) tr))))"
  by (simp add: Observe_TestCase exists_error_false)

theorem Observe_never_returns_error_witness:
  "snd (fst (exists (stubWorld (Inr ''pong'') (Inr ''not json'') (Inr []) (Inr ''jwt''))
               (forge stubExternal) ''acme'' ''load-1'' []))
     = Some (LibError ''invalid character in JSON input'')
   \<and> fst (Observe (stubWorld (Inr ''pong'') (Inr ''not json'') (Inr []) (Inr ''jwt''))
            stubExternal (IsTestCase acmeLoad1) [])
     = (\<lparr>ResourceExists = False, ResourceUpToDate = True,
         ExternalObservation.ConnectionDetails = Some Map.empty\<rparr>, None)"
proof -
  have failed:
    "exists (stubWorld (Inr ''pong'') (Inr ''not json'') (Inr []) (Inr ''jwt''))
       (forge stubExternal) ''acme'' ''load-1'' []
     = ((False, Some (LibError ''invalid character in JSON input'')),
        [Exec [''forge'', ''--output'', ''json'', ''test-case'', ''list'', ''acme''],
         Print ''invalid character in JSON input\<newline>''])"
    by (simp add: exists_def stub_simps Println_def)
  show ?thesis
    using Observe_never_returns_error
            [of "stubWorld (Inr ''pong'') (Inr ''not json'') (Inr []) (Inr ''jwt'')"
                stubExternal acmeLoad1 "[]"]
    by (simp add: acmeLoad1_fields failed)
qed

text \<open>
  Claim C6. Whenever the observation \<open>Observe\<close> returns has \<open>ResourceExists\<close> true, it
  has \<open>ResourceUpToDate\<close> true as well: no drift is computed, so an existing resource
  never asks for \<open>Update\<close>.
\<close>

theorem Observe_existing_is_up_to_date:
  "ResourceExists (fst (fst (Observe w c mg tr)))
     \<Longrightarrow> ResourceUpToDate (fst (fst (Observe w c mg tr)))"
proof (cases mg)
  case (IsTestCase testCase)
  then show ?thesis by (simp add: Observe_TestCase)
next
  case (OtherKind k)
  assume "ResourceExists (fst (fst (Observe w c mg tr)))"
  with OtherKind show ?thesis by (simp add: Observe_def zeroExternalObservation_def)
qed

theorem Observe_existing_is_up_to_date_witness:
  "ResourceExists
     (fst (fst (Observe (stubWorld (Inr ''pong'') (Inr load1Listed) (Inr []) (Inr ''jwt''))
                  stubExternal (IsTestCase acmeLoad1) [])))
   \<and> ResourceUpToDate
     (fst (fst (Observe (stubWorld (Inr ''pong'') (Inr load1Listed) (Inr []) (Inr ''jwt''))
                  stubExternal (IsTestCase acmeLoad1) [])))"
proof -
  have listed:
    "ResourceExists
       (fst (fst (Observe (stubWorld (Inr ''pong'') (Inr load1Listed) (Inr []) (Inr ''jwt''))
                    stubExternal (IsTestCase acmeLoad1) [])))"
    by (simp add: Observe_TestCase exists_def acmeLoad1_fields stub_simps)
  from listed Observe_existing_is_up_to_date [OF listed] show ?thesis by simp
qed

section \<open>Create and Delete\<close>

lemma create_command_failed:
  assumes "Output w [''forge'', ''test-case'', ''create'', org @ ''/'' @ name,
                     ''examples/sample/loadtest.mjs''] = Inl err"
  shows "create w f org name tr =
           (Some err,
            tr @ [Exec [''forge'', ''test-case'', ''create'', org @ ''/'' @ name,
                        ''examples/sample/loadtest.mjs''],
                  Println (Error err)])"
  using assms by (simp add: create_def)

lemma create_command_succeeded:
  assumes "Output w [''forge'', ''test-case'', ''create'', org @ ''/'' @ name,
                     ''examples/sample/loadtest.mjs''] = Inr stdout"
  shows "create w f org name tr =
           (None,
            tr @ [Exec [''forge'', ''test-case'', ''create'', org @ ''/'' @ name,
                        ''examples/sample/loadtest.mjs''],
                  Println (''create: '' @ stdout)])"
  using assms by (simp add: create_def)

lemma commands_create:
  "commands (snd (create w f org name tr)) =
     commands tr @ [[''forge'', ''test-case'', ''create'', org @ ''/'' @ name,
                     ''examples/sample/loadtest.mjs'']]"
  by (cases "Output w [''forge'', ''test-case'', ''create'', org @ ''/'' @ name,
                       ''examples/sample/loadtest.mjs'']")
     (simp_all add: create_command_failed create_command_succeeded commands_append Println_def)

lemma Create_TestCase:
  "Create w c (IsTestCase cr) tr =
     ((case fst (create w (forge c)
                   (TestCaseParameters.Org (ForProvider (TestCase.Spec cr)))
                   (TestCaseParameters.Name (ForProvider (TestCase.Spec cr)))
                   (tr @ [Print (''MDL Creating: '' @ Sprint_plus_v w cr @ ''\<newline>'')])) of
         Some e \<Rightarrow> (zeroExternalCreation, Some e)
       | None \<Rightarrow> (\<lparr>ExternalCreation.ConnectionDetails = Some Map.empty\<rparr>, None)),
      snd (create w (forge c)
             (TestCaseParameters.Org (ForProvider (TestCase.Spec cr)))
             (TestCaseParameters.Name (ForProvider (TestCase.Spec cr)))
             (tr @ [Print (''MDL Creating: '' @ Sprint_plus_v w cr @ ''\<newline>'')])))"
  by (simp add: Create_def Let_def split: prod.splits option.splits)

text \<open>
  Claim C7. On a \<open>TestCase\<close> with organization \<open>org\<close> and name \<open>n\<close>, \<open>Create\<close> runs
  exactly one external command, the forge creation command with the identifier
  \<open>org/n\<close> and the fixed definition path \<open>examples/sample/loadtest.mjs\<close>. When the
  command succeeds, \<open>Create\<close> returns a nil error and a creation result whose
  \<open>ConnectionDetails\<close> is the empty map; when it fails, \<open>Create\<close> returns that error
  and the zero creation result.
\<close>

theorem Create_runs_create_command_once:
  "commands (snd (Create w c (IsTestCase cr) tr)) =
     commands tr @
       [[''forge'', ''test-case'', ''create'',
         TestCaseParameters.Org (ForProvider (TestCase.Spec cr)) @ ''/'' @
           TestCaseParameters.Name (ForProvider (TestCase.Spec cr)),
         ''examples/sample/loadtest.mjs'']]
   \<and> (Output w [''forge'', ''test-case'', ''create'',
                 TestCaseParameters.Org (ForProvider (TestCase.Spec cr)) @ ''/'' @
                   TestCaseParameters.Name (ForProvider (TestCase.Spec cr)),
                 ''examples/sample/loadtest.mjs''] = Inr stdout
      \<longrightarrow> fst (Create w c (IsTestCase cr) tr) =
            (\<lparr>ExternalCreation.ConnectionDetails = Some Map.empty\<rparr>, None))
   \<and> (Output w [''forge'', ''test-case'', ''create'',
                 TestCaseParameters.Org (ForProvider (TestCase.Spec cr)) @ ''/'' @
                   TestCaseParameters.Name (ForProvider (TestCase.Spec cr)),
                 ''examples/sample/loadtest.mjs''] = Inl err
      \<longrightarrow> fst (Create w c (IsTestCase cr) tr) =
            (\<lparr>ExternalCreation.ConnectionDetails = None\<rparr>, Some err))"
proof (intro conjI impI)
  show "commands (snd (Create w c (IsTestCase cr) tr)) =
     commands tr @
       [[''forge'', ''test-case'', ''create'',
         TestCaseParameters.Org (ForProvider (TestCase.Spec cr)) @ ''/'' @
           TestCaseParameters.Name (ForProvider (TestCase.Spec cr)),
         ''examples/sample/loadtest.mjs'']]"
    using commands_create
            [of w "forge c" "TestCaseParameters.Org (ForProvider (TestCase.Spec cr))"
                "TestCaseParameters.Name (ForProvider (TestCase.Spec cr))"
                "tr @ [Print (''MDL Creating: '' @ Sprint_plus_v w cr @ ''\<newline>'')]"]
    by (simp add: Create_TestCase commands_append)
next
  assume "Output w [''forge'', ''test-case'', ''create'',
                 TestCaseParameters.Org (ForProvider (TestCase.Spec cr)) @ ''/'' @
                   TestCaseParameters.Name (ForProvider (TestCase.Spec cr)),
                 ''examples/sample/loadtest.mjs''] = Inr stdout"
  then show "fst (Create w c (IsTestCase cr) tr) =
            (\<lparr>ExternalCreation.ConnectionDetails = Some Map.empty\<rparr>, None)"
    by (simp add: Create_TestCase create_command_succeeded)
next
  assume "Output w [''forge'', ''test-case'', ''create'',
                 TestCaseParameters.Org (ForProvider (TestCase.Spec cr)) @ ''/'' @
                   TestCaseParameters.Name (ForProvider (TestCase.Spec cr)),
                 ''examples/sample/loadtest.mjs''] = Inl err"
  then show "fst (Create w c (IsTestCase cr) tr) =
            (\<lparr>ExternalCreation.ConnectionDetails = None\<rparr>, Some err)"
    by (simp add: Create_TestCase create_command_failed zeroExternalCreation_def)
qed

theorem Create_runs_create_command_once_witness:
  "commands (snd (Create (stubWorld (Inr ''pong'') (Inr emptyList) (Inr ''created'') (Inr ''jwt''))
                    stubExternal (IsTestCase acmeLoad1) []))
     = [[''forge'', ''test-case'', ''create'', ''acme/load-1'', ''examples/sample/loadtest.mjs'']]
   \<and> fst (Create (stubWorld (Inr ''pong'') (Inr emptyList) (Inr ''created'') (Inr ''jwt''))
            stubExternal (IsTestCase acmeLoad1) [])
     = (\<lparr>ExternalCreation.ConnectionDetails = Some Map.empty\<rparr>, None)
   \<and> fst (Create (stubWorld (Inr ''pong'') (Inr emptyList) (Inl (LibError ''exit status 1''))
                    (Inr ''jwt''))
            stubExternal (IsTestCase acmeLoad1) [])
     = (\<lparr>ExternalCreation.ConnectionDetails = None\<rparr>, Some (LibError ''exit status 1''))"
  using Create_runs_create_command_once
          [of "stubWorld (Inr ''pong'') (Inr emptyList) (Inr ''created'') (Inr ''jwt'')"
              stubExternal acmeLoad1 "[]" "''created''"]
        Create_runs_create_command_once
          [of "stubWorld (Inr ''pong'') (Inr emptyList) (Inl (LibError ''exit status 1''))
                 (Inr ''jwt'')"
              stubExternal acmeLoad1 "[]" _ "LibError ''exit status 1''"]
  by (simp add: acmeLoad1_fields stub_simps)

text \<open>
  Claim C8. On a \<open>TestCase\<close>, \<open>Delete\<close> returns a nil error and calls nothing outside
  the process: it writes one diagnostic line and runs no external command.
\<close>

theorem Delete_is_a_no_op:
  "Delete w c (IsTestCase cr) tr = (None, tr @ [Print (''MDL Deleting: '' @ Sprint_plus_v w cr)])
   \<and> commands (snd (Delete w c (IsTestCase cr) tr)) = commands tr
   \<and> calls (snd (Delete w c (IsTestCase cr) tr)) = calls tr"
  by (simp add: Delete_def commands_append calls_def)

section \<open>Resources of another kind\<close>

text \<open>
  Claim C9. On a managed resource that is not a \<open>TestCase\<close>, each of \<open>Connect\<close>,
  \<open>Observe\<close>, \<open>Create\<close> and \<open>Delete\<close> fails with the error
  \<open>managed resource is not a TestCase custom resource\<close> and runs no external command,
  tracks no usage, reads no configuration and extracts no credentials. \<open>Observe\<close>,
  \<open>Create\<close> and \<open>Delete\<close> leave the trace as it was; \<open>Connect\<close> has written its
  diagnostic line \<open>MDL Connect\<close> before the type assertion, and nothing else.
\<close>

theorem other_kinds_are_rejected_first:
  "Connect w k (OtherKind kind) tr =
     (Returns (None, Some (ErrorsNew errNotMyType)), tr @ [Print ''MDL Connect\<newline>''])
   \<and> Observe w c (OtherKind kind) tr =
       ((\<lparr>ResourceExists = False, ResourceUpToDate = False,
          ExternalObservation.ConnectionDetails = None\<rparr>, Some (ErrorsNew errNotMyType)), tr)
   \<and> Create w c (OtherKind kind) tr =
       ((\<lparr>ExternalCreation.ConnectionDetails = None\<rparr>, Some (ErrorsNew errNotMyType)), tr)
   \<and> Delete w c (OtherKind kind) tr = (Some (ErrorsNew errNotMyType), tr)
   \<and> calls (snd (Connect w k (OtherKind kind) tr)) = calls tr
   \<and> Error (ErrorsNew errNotMyType) = ''managed resource is not a TestCase custom resource''"
  by (simp add: Connect_def Observe_def Create_def Delete_def zeroExternalObservation_def
        zeroExternalCreation_def calls_def errNotMyType_def)

section \<open>Connect\<close>

lemma calls_ping:
  "calls (snd (ping w f tr)) = calls tr @ [Exec [''forge'', ''ping'']]"
  by (cases "Output w [''forge'', ''ping'']") (simp_all add: ping_def calls_def Println_def)

lemma commands_ping:
  "commands (snd (ping w f tr)) = commands tr @ [[''forge'', ''ping'']]"
  by (cases "Output w [''forge'', ''ping'']")
     (simp_all add: ping_def commands_append Println_def)

lemma Connect_tracking_failed:
  assumes "usage c (IsTestCase cr) = Some err"
  shows "Connect w c (IsTestCase cr) tr =
           (Returns (None, Some (ErrorsWrap err errTrackPCUsage)),
            tr @ [Print ''MDL Connect\<newline>'', Track (IsTestCase cr)])"
  using assms by (simp add: Connect_def)

text \<open>
  A tracker that accepts a resource without a provider configuration reference leads
  \<open>Connect\<close> to dereference the nil reference. (The tracker that \<open>Setup\<close> injects
  refuses such a resource, so the first case applies there.)
\<close>

lemma Connect_no_reference:
  assumes "usage c (IsTestCase cr) = None"
    and "ProviderConfigReference (TestCase.Spec cr) = None"
  shows "Connect w c (IsTestCase cr) tr =
           (Panics nilDereference,
            tr @ [Print ''MDL Connect\<newline>'', Track (IsTestCase cr)])"
  using assms by (simp add: Connect_def)

lemma Connect_get_failed:
  assumes "usage c (IsTestCase cr) = None"
    and "ProviderConfigReference (TestCase.Spec cr) = Some ref"
    and "kube c (Reference.Name ref) = Inl err"
  shows "Connect w c (IsTestCase cr) tr =
           (Returns (None, Some (ErrorsWrap err errGetPC)),
            tr @ [Print ''MDL Connect\<newline>'', Track (IsTestCase cr),
                  Get (Reference.Name ref)])"
  using assms by (simp add: Connect_def)

lemma Connect_credentials_failed:
  assumes "usage c (IsTestCase cr) = None"
    and "ProviderConfigReference (TestCase.Spec cr) = Some ref"
    and "kube c (Reference.Name ref) = Inr pc"
    and "CommonCredentialExtractor w (Credentials (ProviderConfig.Spec pc)) = Inl err"
  shows "Connect w c (IsTestCase cr) tr =
           (Returns (None, Some (ErrorsWrap err errGetCreds)),
            tr @ [Print ''MDL Connect\<newline>'', Track (IsTestCase cr),
                  Get (Reference.Name ref),
                  ExtractCredentials (Credentials (ProviderConfig.Spec pc))])"
  using assms by (simp add: Connect_def)

lemma Connect_connected:
  assumes "usage c (IsTestCase cr) = None"
    and "ProviderConfigReference (TestCase.Spec cr) = Some ref"
    and "kube c (Reference.Name ref) = Inr pc"
    and "CommonCredentialExtractor w (Credentials (ProviderConfig.Spec pc)) = Inr data"
  shows "Connect w c (IsTestCase cr) tr =
           (Returns (Some \<lparr>forge = \<lparr>jwtToken = data\<rparr>\<rparr>, None),
            snd (ping w \<lparr>jwtToken = data\<rparr>
                   (tr @ [Print ''MDL Connect\<newline>'', Track (IsTestCase cr),
                          Get (Reference.Name ref),
                          ExtractCredentials (Credentials (ProviderConfig.Spec pc)),
                          Print (''MDL pc.Spec.Credentials.data: '' @ data @ ''\<newline>'')])))"
  using assms by (simp add: Connect_def NewForge_def split: prod.splits)

lemma stubConnector_fields:
  "usage (stubConnector tracked) mg = tracked"
  "kube (stubConnector tracked) ''default'' =
     Inr \<lparr>ProviderConfig.Spec = \<lparr>Credentials = secretCredentials\<rparr>\<rparr>"
  "kube (stubConnector tracked) ''missing'' = Inl (LibError ''ProviderConfig not found'')"
  by (simp_all add: stubConnector_def)

lemma otherReference_fields:
  "ProviderConfigReference (TestCase.Spec missingConfig) = Some \<lparr>Reference.Name = ''missing''\<rparr>"
  by (simp add: missingConfig_def)

text \<open>
  Claim C4. A failing health check never aborts connection: on every \<open>TestCase\<close> for
  which usage tracking, the read of the provider configuration and the credential
  extraction succeed, \<open>Connect\<close> returns an external client built from the extracted
  credentials and a nil error, whatever the \<open>forge ping\<close> command returns; the ping is
  the only command it runs.
\<close>

theorem Connect_survives_failed_ping:
  assumes "usage c (IsTestCase cr) = None"
    and "ProviderConfigReference (TestCase.Spec cr) = Some ref"
    and "kube c (Reference.Name ref) = Inr pc"
    and "CommonCredentialExtractor w (Credentials (ProviderConfig.Spec pc)) = Inr data"
  shows "fst (Connect w c (IsTestCase cr) tr) =
           Returns (Some \<lparr>forge = \<lparr>jwtToken = data\<rparr>\<rparr>, None)
         \<and> commands (snd (Connect w c (IsTestCase cr) tr)) = commands tr @ [[''forge'', ''ping'']]"
  using assms by (simp add: Connect_connected commands_ping commands_append)

theorem Connect_survives_failed_ping_witness:
  "Output (stubWorld (Inl (LibError ''exit status 1'')) (Inr emptyList) (Inr []) (Inr ''jwt''))
       [''forge'', ''ping''] = Inl (LibError ''exit status 1'')
   \<and> fst (Connect (stubWorld (Inl (LibError ''exit status 1'')) (Inr emptyList) (Inr []) (Inr ''jwt''))
            (stubConnector None) (IsTestCase acmeLoad1) [])
       = Returns (Some \<lparr>forge = \<lparr>jwtToken = ''jwt''\<rparr>\<rparr>, None)
   \<and> commands (snd (Connect (stubWorld (Inl (LibError ''exit status 1'')) (Inr emptyList) (Inr [])
                                (Inr ''jwt''))
                      (stubConnector None) (IsTestCase acmeLoad1) []))
       = [[''forge'', ''ping'']]"
  using Connect_survives_failed_ping
          [of "stubConnector None" acmeLoad1 "\<lparr>Reference.Name = ''default''\<rparr>"
              "\<lparr>ProviderConfig.Spec = \<lparr>Credentials = secretCredentials\<rparr>\<rparr>"
              "stubWorld (Inl (LibError ''exit status 1'')) (Inr emptyList) (Inr []) (Inr ''jwt'')"
              "''jwt''" "[]"]
  by (simp add: acmeLoad1_fields stubConnector_fields stub_simps)

text \<open>
  Claim C5. \<open>Connect\<close> proceeds in the order usage tracking, configuration read,
  credential extraction, client construction, and stops at the first failure: a failed
  tracking returns the tracking error with no configuration read; a configuration that
  cannot be read returns the configuration error with no credentials extracted and no
  client; a failed extraction returns the credential error with no client and no command
  run; and when all three succeed the calls happen in exactly that order, the ping of the
  new client last.
\<close>

theorem Connect_fails_fast_in_order:
  "(usage c (IsTestCase cr) = Some err
      \<longrightarrow> Connect w c (IsTestCase cr) tr =
            (Returns (None, Some (ErrorsWrap err errTrackPCUsage)),
             tr @ [Print ''MDL Connect\<newline>'', Track (IsTestCase cr)]))
   \<and> (usage c (IsTestCase cr) = None
        \<and> ProviderConfigReference (TestCase.Spec cr) = Some ref
        \<and> kube c (Reference.Name ref) = Inl err
      \<longrightarrow> Connect w c (IsTestCase cr) tr =
            (Returns (None, Some (ErrorsWrap err errGetPC)),
             tr @ [Print ''MDL Connect\<newline>'', Track (IsTestCase cr),
                   Get (Reference.Name ref)]))
   \<and> (usage c (IsTestCase cr) = None
        \<and> ProviderConfigReference (TestCase.Spec cr) = Some ref
        \<and> kube c (Reference.Name ref) = Inr pc
        \<and> CommonCredentialExtractor w (Credentials (ProviderConfig.Spec pc)) = Inl err
      \<longrightarrow> Connect w c (IsTestCase cr) tr =
            (Returns (None, Some (ErrorsWrap err errGetCreds)),
             tr @ [Print ''MDL Connect\<newline>'', Track (IsTestCase cr),
                   Get (Reference.Name ref),
                   ExtractCredentials (Credentials (ProviderConfig.Spec pc))]))
   \<and> (usage c (IsTestCase cr) = None
        \<and> ProviderConfigReference (TestCase.Spec cr) = Some ref
        \<and> kube c (Reference.Name ref) = Inr pc
        \<and> CommonCredentialExtractor w (Credentials (ProviderConfig.Spec pc)) = Inr data
      \<longrightarrow> fst (Connect w c (IsTestCase cr) tr) =
            Returns (Some \<lparr>forge = \<lparr>jwtToken = data\<rparr>\<rparr>, None)
          \<and> calls (snd (Connect w c (IsTestCase cr) tr)) =
            calls tr @ [Track (IsTestCase cr), Get (Reference.Name ref),
                        ExtractCredentials (Credentials (ProviderConfig.Spec pc)),
                        Exec [''forge'', ''ping'']])"
proof (intro conjI impI)
  assume "usage c (IsTestCase cr) = Some err"
  then show "Connect w c (IsTestCase cr) tr =
            (Returns (None, Some (ErrorsWrap err errTrackPCUsage)),
             tr @ [Print ''MDL Connect\<newline>'', Track (IsTestCase cr)])"
    by (rule Connect_tracking_failed)
next
  assume "usage c (IsTestCase cr) = None
        \<and> ProviderConfigReference (TestCase.Spec cr) = Some ref
        \<and> kube c (Reference.Name ref) = Inl err"
  then show "Connect w c (IsTestCase cr) tr =
            (Returns (None, Some (ErrorsWrap err errGetPC)),
             tr @ [Print ''MDL Connect\<newline>'', Track (IsTestCase cr),
                   Get (Reference.Name ref)])"
    by (simp add: Connect_get_failed)
next
  assume "usage c (IsTestCase cr) = None
        \<and> ProviderConfigReference (TestCase.Spec cr) = Some ref
        \<and> kube c (Reference.Name ref) = Inr pc
        \<and> CommonCredentialExtractor w (Credentials (ProviderConfig.Spec pc)) = Inl err"
  then show "Connect w c (IsTestCase cr) tr =
            (Returns (None, Some (ErrorsWrap err errGetCreds)),
             tr @ [Print ''MDL Connect\<newline>'', Track (IsTestCase cr),
                   Get (Reference.Name ref),
                   ExtractCredentials (Credentials (ProviderConfig.Spec pc))])"
    by (simp add: Connect_credentials_failed)
next
  assume ok: "usage c (IsTestCase cr) = None
        \<and> ProviderConfigReference (TestCase.Spec cr) = Some ref
        \<and> kube c (Reference.Name ref) = Inr pc
        \<and> CommonCredentialExtractor w (Credentials (ProviderConfig.Spec pc)) = Inr data"
  then show "fst (Connect w c (IsTestCase cr) tr) =
            Returns (Some \<lparr>forge = \<lparr>jwtToken = data\<rparr>\<rparr>, None)"
    by (simp add: Connect_connected)
  from ok show "calls (snd (Connect w c (IsTestCase cr) tr)) =
            calls tr @ [Track (IsTestCase cr), Get (Reference.Name ref),
                        ExtractCredentials (Credentials (ProviderConfig.Spec pc)),
                        Exec [''forge'', ''ping'']]"
    by (simp add: Connect_connected calls_ping) (simp add: calls_def)
qed


theorem Connect_fails_fast_in_order_witness:
  "Connect (stubWorld (Inr ''pong'') (Inr emptyList) (Inr []) (Inr ''jwt''))
       (stubConnector (Some (LibError ''tracking store unavailable''))) (IsTestCase acmeLoad1) []
     = (Returns (None, Some (ErrorsWrap (LibError ''tracking store unavailable'') errTrackPCUsage)),
        [Print ''MDL Connect\<newline>'', Track (IsTestCase acmeLoad1)])
   \<and> Connect (stubWorld (Inr ''pong'') (Inr emptyList) (Inr []) (Inr ''jwt''))
       (stubConnector None) (IsTestCase missingConfig) []
     = (Returns (None, Some (ErrorsWrap (LibError ''ProviderConfig not found'') errGetPC)),
        [Print ''MDL Connect\<newline>'', Track (IsTestCase missingConfig), Get ''missing''])
   \<and> Connect (stubWorld (Inr ''pong'') (Inr emptyList) (Inr []) (Inl (LibError ''secret not found'')))
       (stubConnector None) (IsTestCase acmeLoad1) []
     = (Returns (None, Some (ErrorsWrap (LibError ''secret not found'') errGetCreds)),
        [Print ''MDL Connect\<newline>'', Track (IsTestCase acmeLoad1), Get ''default'',
         ExtractCredentials secretCredentials])
   \<and> fst (Connect (stubWorld (Inr ''pong'') (Inr emptyList) (Inr []) (Inr ''jwt''))
            (stubConnector None) (IsTestCase acmeLoad1) [])
     = Returns (Some \<lparr>forge = \<lparr>jwtToken = ''jwt''\<rparr>\<rparr>, None)
   \<and> calls (snd (Connect (stubWorld (Inr ''pong'') (Inr emptyList) (Inr []) (Inr ''jwt''))
                   (stubConnector None) (IsTestCase acmeLoad1) []))
     = [Track (IsTestCase acmeLoad1), Get ''default'', ExtractCredentials secretCredentials,
        Exec [''forge'', ''ping'']]"
  using Connect_fails_fast_in_order
          [of "stubConnector (Some (LibError ''tracking store unavailable''))" acmeLoad1
              "LibError ''tracking store unavailable''" 
              "stubWorld (Inr ''pong'') (Inr emptyList) (Inr []) (Inr ''jwt'')" "[]"]
        Connect_fails_fast_in_order
          [of "stubConnector None" missingConfig "LibError ''ProviderConfig not found''"
              "stubWorld (Inr ''pong'') (Inr emptyList) (Inr []) (Inr ''jwt'')" "[]"
              "\<lparr>Reference.Name = ''missing''\<rparr>"]
        Connect_fails_fast_in_order
          [of "stubConnector None" acmeLoad1 "LibError ''secret not found''"
              "stubWorld (Inr ''pong'') (Inr emptyList) (Inr []) (Inl (LibError ''secret not found''))"
              "[]" "\<lparr>Reference.Name = ''default''\<rparr>"
              "\<lparr>ProviderConfig.Spec = \<lparr>Credentials = secretCredentials\<rparr>\<rparr>"]
        Connect_fails_fast_in_order
          [of "stubConnector None" acmeLoad1 _
              "stubWorld (Inr ''pong'') (Inr emptyList) (Inr []) (Inr ''jwt'')"
              "[]" "\<lparr>Reference.Name = ''default''\<rparr>"
              "\<lparr>ProviderConfig.Spec = \<lparr>Credentials = secretCredentials\<rparr>\<rparr>" "''jwt''"]
  by (simp add: acmeLoad1_fields otherReference_fields stubConnector_fields stub_simps calls_def)

end
